theory Spec2Isabelle
  imports Complex_Main "HOL-Library.AList" "HOL-Library.Monad_Syntax"
begin

section \<open>Python values used by \<open>app.py\<close>\<close>

text \<open>
  A Python \<open>str\<close> is a sequence of Unicode code points.  The source mixes Latin and
  Chinese vocabulary and splits sentences on U+3002, so a text is a list of code points
  (natural numbers), not a list of 8-bit characters.  \<open>str_of\<close> writes an ASCII literal.

  Python floats are modelled as exact reals: rounding is not represented.  An operation
  that can raise (a division, an index) returns \<open>None\<close> where Python raises.
\<close>

type_synonym cp = nat
type_synonym ustr = "cp list"

definition str_of :: "string \<Rightarrow> ustr" where
  "str_of s = map of_char s"

text \<open>
  \<open>str.lower()\<close> and \<open>str.isupper()\<close> read the interpreter's Unicode character database,
  which is no part of the repository.  Both are parameters of the model: every theorem
  below holds for any such pair of tables.
\<close>

record unicode_db =
  lower :: "ustr \<Rightarrow> ustr"
  isupper :: "cp \<Rightarrow> bool"

text \<open>The two tables restricted to ASCII, where they agree with CPython on ASCII text.\<close>

definition ascii_lower :: "ustr \<Rightarrow> ustr" where
  "ascii_lower s = map (\<lambda>c. if 65 \<le> c \<and> c \<le> 90 then c + 32 else c) s"

definition ascii_isupper :: "cp \<Rightarrow> bool" where
  "ascii_isupper c = (65 \<le> c \<and> c \<le> 90)"

definition ascii_db :: unicode_db where
  "ascii_db = \<lparr>lower = ascii_lower, isupper = ascii_isupper\<rparr>"

text \<open>The code points \<open>str.split()\<close> and \<open>str.strip()\<close> treat as whitespace.\<close>

definition isspace :: "cp \<Rightarrow> bool" where
  "isspace c = ((0x9 \<le> c \<and> c \<le> 0xD) \<or> (0x1C \<le> c \<and> c \<le> 0x20) \<or> c = 0x85 \<or> c = 0xA0
     \<or> c = 0x1680 \<or> (0x2000 \<le> c \<and> c \<le> 0x200A) \<or> c = 0x2028 \<or> c = 0x2029
     \<or> c = 0x202F \<or> c = 0x205F \<or> c = 0x3000)"

text \<open>\<open>text.split()\<close>: the maximal runs of non-whitespace, in order; no empty token.\<close>

fun split_acc :: "ustr \<Rightarrow> ustr \<Rightarrow> ustr list" where
  "split_acc cur [] = (if cur = [] then [] else [cur])"
| "split_acc cur (c # cs) =
     (if isspace c then (if cur = [] then split_acc [] cs else cur # split_acc [] cs)
      else split_acc (cur @ [c]) cs)"

definition split :: "ustr \<Rightarrow> ustr list" where
  "split text = split_acc [] text"

text \<open>\<open>text.split(sep)\<close> for a one-character separator: empty pieces are kept.\<close>

fun split_on :: "cp \<Rightarrow> ustr \<Rightarrow> ustr list" where
  "split_on sep [] = [[]]"
| "split_on sep (c # cs) =
     (if c = sep then [] # split_on sep cs
      else (case split_on sep cs of [] \<Rightarrow> [[c]] | p # ps \<Rightarrow> (c # p) # ps))"

text \<open>\<open>s.strip()\<close>: leading and trailing whitespace removed.\<close>

definition strip :: "ustr \<Rightarrow> ustr" where
  "strip s = rev (dropWhile isspace (rev (dropWhile isspace s)))"

text \<open>\<open>sep.join(parts)\<close>.\<close>

fun join :: "ustr \<Rightarrow> ustr list \<Rightarrow> ustr" where
  "join sep [] = []"
| "join sep [p] = p"
| "join sep (p # q # ps) = p @ sep @ join sep (q # ps)"

text \<open>\<open>sub in text\<close>: \<open>sub\<close> occurs in \<open>text\<close> as a contiguous substring.\<close>

fun startswith :: "ustr \<Rightarrow> ustr \<Rightarrow> bool" where
  "startswith text [] = True"
| "startswith [] (c # sub) = False"
| "startswith (d # text) (c # sub) = (d = c \<and> startswith text sub)"

fun contains :: "ustr \<Rightarrow> ustr \<Rightarrow> bool" where
  "contains [] sub = (sub = [])"
| "contains (d # text) sub = (startswith (d # text) sub \<or> contains text sub)"

text \<open>
  \<open>text.count(sub)\<close>: the number of non-overlapping occurrences, scanning from the left.
  For the empty \<open>sub\<close> Python answers \<open>len(text) + 1\<close>.
\<close>

function count_sub :: "ustr \<Rightarrow> ustr \<Rightarrow> int" where
  "count_sub text sub =
     (if sub = [] then int (length text) + 1
      else if text = [] then 0
      else if startswith text sub then 1 + count_sub (drop (length sub) text) sub
      else count_sub (tl text) sub)"
  by pat_completeness auto
termination
  by (relation "measure (\<lambda>(text, sub). length text)") auto

declare count_sub.simps [simp del]

text \<open>\<open>d.get(k, default)\<close> on an insertion-ordered dictionary.\<close>

definition dict_get :: "('k \<times> 'v) list \<Rightarrow> 'k \<Rightarrow> 'v \<Rightarrow> 'v" where
  "dict_get d k dflt = (case map_of d k of None \<Rightarrow> dflt | Some v \<Rightarrow> v)"

text \<open>\<open>a / b\<close> on numbers: ZeroDivisionError is \<open>None\<close>.\<close>

definition py_div :: "real \<Rightarrow> real \<Rightarrow> real option" where
  "py_div a b = (if b = 0 then None else Some (a / b))"

text \<open>\<open>s[i]\<close> for \<open>i \<ge> 0\<close>: IndexError is \<open>None\<close>.\<close>

definition py_index :: "'a list \<Rightarrow> nat \<Rightarrow> 'a option" where
  "py_index xs i = (if i < length xs then Some (xs ! i) else None)"

text \<open>
  \<open>np.mean\<close> and \<open>np.var\<close> (population variance).  On an empty array numpy answers
  \<open>nan\<close> with a warning; the model has no \<open>nan\<close> and answers \<open>None\<close> there.
\<close>

definition np_mean :: "real list \<Rightarrow> real option" where
  "np_mean xs = (if xs = [] then None else py_div (sum_list xs) (real (length xs)))"

definition np_var :: "real list \<Rightarrow> real option" where
  "np_var xs = do {
     m \<leftarrow> np_mean xs;
     np_mean (map (\<lambda>x. (x - m)\<^sup>2) xs)
   }"

text \<open>\<open>sum(1 for x in xs if p(x))\<close>.\<close>

definition count_if :: "('a \<Rightarrow> bool) \<Rightarrow> 'a list \<Rightarrow> int" where
  "count_if p xs = sum_list (map (\<lambda>x. 1) (filter p xs))"

section \<open>Feature extractors\<close>

subsection \<open>\<open>count_repeated_phrases\<close> (lines 9-20)\<close>

text \<open>The loop of lines 15-18: the dictionary of three-word windows and their counts.\<close>

definition phrase_counts :: "ustr list \<Rightarrow> (ustr \<times> int) list" where
  "phrase_counts words =
     fold (\<lambda>i phrases.
             let phrase = join (str_of '' '') (take 3 (drop i words))
             in AList.update phrase (dict_get phrases phrase 0 + 1) phrases)
          [0 ..< length words - 2] []"

definition count_repeated_phrases :: "unicode_db \<Rightarrow> ustr \<Rightarrow> int" where
  "count_repeated_phrases U text =
     (let words = split (lower U text)
      in if length words < 3 then 0
         else count_if (\<lambda>count. count > 2) (map snd (phrase_counts words)))"

subsection \<open>\<open>detect_formal_language\<close> (lines 23-33)\<close>

definition formal_words :: "ustr list" where
  "formal_words =
     [str_of ''furthermore'', str_of ''moreover'', str_of ''consequently'', str_of ''therefore'',
      str_of ''nevertheless'', str_of ''however'', str_of ''regarding'', str_of ''facilitate'',
      str_of ''implement'', str_of ''subsequent'', str_of ''adjacent'',
      [0x56E0, 0x6B64], [0x7136, 0x800C], [0x5118, 0x7BA1]]"

definition detect_formal_language :: "unicode_db \<Rightarrow> ustr \<Rightarrow> real option" where
  "detect_formal_language U text =
     (let text_lower = lower U text;
          count = count_if (\<lambda>word. contains text_lower word) formal_words
      in map_option (min 1.0) (py_div (real_of_int count) 3))"

subsection \<open>\<open>check_grammar_perfection\<close> (lines 36-47)\<close>

text \<open>
  Line 44 tests each sentence with \<open>s.strip() and not s.strip()[0].isupper()\<close>; the index
  is evaluated only when the stripped sentence is not empty.
\<close>

definition cap_error :: "unicode_db \<Rightarrow> ustr \<Rightarrow> bool option" where
  "cap_error U s =
     (if strip s \<noteq> [] then map_option (\<lambda>c. \<not> isupper U c) (py_index (strip s) 0)
      else Some False)"

definition check_grammar_perfection :: "unicode_db \<Rightarrow> ustr \<Rightarrow> real option" where
  "check_grammar_perfection U text = do {
     let errors = (0::int);
     let errors = (if contains text (str_of ''  '') then errors + count_sub text (str_of ''  '')
                   else errors);
     let sentences = split_on 0x3002 text;
     flags \<leftarrow> those (map (cap_error U) sentences);
     let cap_errors = count_if (\<lambda>b. b) flags;
     let errors = errors + cap_errors;
     tenth \<leftarrow> py_div (real (length (split text))) 10;
     ratio \<leftarrow> py_div (real_of_int errors) (max 1 tenth);
     Some (max 0 (1 - ratio))
   }"

subsection \<open>\<open>check_formulaic_patterns\<close> (lines 50-65)\<close>

definition patterns :: "ustr list" where
  "patterns =
     [str_of ''in today'' @ [0x27] @ str_of ''s world'', str_of ''it is important to'',
      str_of ''in conclusion'', str_of ''furthermore'',
      [0x5728, 0x7576, 0x4ECA, 0x4E16, 0x754C], [0x91CD, 0x8981, 0x7684, 0x662F],
      [0x7E3D, 0x4E4B], [0x6B64, 0x5916]]"

definition check_formulaic_patterns :: "unicode_db \<Rightarrow> ustr \<Rightarrow> bool" where
  "check_formulaic_patterns U text =
     (let text_lower = lower U text;
          count = count_if (\<lambda>p. contains text_lower p) patterns
      in count \<ge> 2)"

subsection \<open>\<open>analyze_structure\<close> (lines 68-79)\<close>

definition analyze_structure :: "ustr \<Rightarrow> real option" where
  "analyze_structure text =
     (let sentences = map strip (filter (\<lambda>s. strip s \<noteq> []) (split_on 0x3002 text))
      in if length sentences < 2 then Some 0
         else do {
           let lengths = map (\<lambda>s. real (length (split s))) sentences;
           variance \<leftarrow> (if length lengths > 1 then np_var lengths else Some 0);
           mean_len \<leftarrow> (if lengths \<noteq> [] then np_mean lengths else Some 1);
           cv \<leftarrow> py_div variance (mean_len + 1);
           third \<leftarrow> py_div cv 3;
           Some (1 - min 1.0 third)
         })"

subsection \<open>\<open>count_contractions\<close> (lines 82-91)\<close>

definition apos :: "string \<Rightarrow> string \<Rightarrow> ustr" where
  "apos a b = str_of a @ [0x27] @ str_of b"

definition contractions :: "ustr list" where
  "contractions =
     [apos ''can'' ''t'', apos ''don'' ''t'', apos ''won'' ''t'', apos ''isn'' ''t'',
      apos ''hasn'' ''t'', apos ''haven'' ''t'', apos ''shouldn'' ''t'', apos ''couldn'' ''t'',
      apos ''wouldn'' ''t'', apos ''that'' ''s'', apos ''it'' ''s'', apos ''i'' ''m'',
      apos ''you'' ''re'', apos ''i'' ''ve'']"

definition count_contractions :: "unicode_db \<Rightarrow> ustr \<Rightarrow> int" where
  "count_contractions U text =
     (let text_lower = lower U text
      in sum_list (map (\<lambda>c. count_sub text_lower c) contractions))"

subsection \<open>\<open>detect_natural_errors\<close> (lines 94-102)\<close>

definition double_words :: "ustr list" where
  "double_words =
     [str_of ''the the'', str_of ''and and'', str_of ''a a'',
      [0x7684, 0x7684], [0x548C, 0x548C]]"

definition detect_natural_errors :: "unicode_db \<Rightarrow> ustr \<Rightarrow> real option" where
  "detect_natural_errors U text = do {
     let errors = fold (\<lambda>word errors. errors + count_sub (lower U text) word) double_words 0;
     tenth \<leftarrow> py_div (real (length (split text))) 10;
     py_div (real_of_int errors) (max 1 tenth)
   }"

subsection \<open>The three vocabulary ratios (lines 105-141)\<close>

definition emotional :: "ustr list" where
  "emotional =
     [str_of ''love'', str_of ''hate'', str_of ''beautiful'', str_of ''terrible'',
      str_of ''wonderful'', str_of ''awful'', str_of ''amazing'', str_of ''fantastic'',
      str_of ''horrible'', str_of ''feel'',
      [0x559C, 0x6B61], [0x8A0E, 0x53AD], [0x7F8E], [0x53EF, 0x6015], [0x68D2],
      [0x7CDF, 0x7CD5], [0x611F, 0x53D7]]"

definition detect_emotional_language :: "unicode_db \<Rightarrow> ustr \<Rightarrow> real option" where
  "detect_emotional_language U text = do {
     let text_lower = lower U text;
     let count = count_if (\<lambda>word. contains text_lower word) emotional;
     fifth \<leftarrow> py_div (real (length (split text))) 5;
     py_div (real_of_int count) (max 1 fifth)
   }"

definition casual :: "ustr list" where
  "casual =
     [str_of ''like'', str_of ''you know'', str_of ''basically'', str_of ''literally'',
      str_of ''actually'', str_of ''honestly'', str_of ''pretty'', str_of ''kind of'',
      str_of ''sort of'', str_of ''gonna'', str_of ''wanna'',
      [0x5C31, 0x50CF], [0x4F60, 0x77E5, 0x9053], [0x57FA, 0x672C, 0x4E0A]]"

definition detect_casual_language :: "unicode_db \<Rightarrow> ustr \<Rightarrow> real option" where
  "detect_casual_language U text = do {
     let text_lower = lower U text;
     let count = count_if (\<lambda>word. contains text_lower word) casual;
     fifth \<leftarrow> py_div (real (length (split text))) 5;
     py_div (real_of_int count) (max 1 fifth)
   }"

definition opinions :: "ustr list" where
  "opinions =
     [str_of ''i think'', str_of ''i believe'', str_of ''my opinion'', str_of ''i would say'',
      str_of ''personally'', str_of ''to me'', str_of ''in my view'',
      [0x6211, 0x8A8D, 0x70BA], [0x6211, 0x76F8, 0x4FE1], [0x6211, 0x7684, 0x770B, 0x6CD5],
      [0x500B, 0x4EBA, 0x4F86, 0x8AAA]]"

definition detect_personal_opinions :: "unicode_db \<Rightarrow> ustr \<Rightarrow> real option" where
  "detect_personal_opinions U text = do {
     let text_lower = lower U text;
     let count = count_if (\<lambda>op. contains text_lower op) opinions;
     fifth \<leftarrow> py_div (real (length (split text))) 5;
     py_div (real_of_int count) (max 1 fifth)
   }"

section \<open>\<open>analyze_text\<close> (lines 144-236)\<close>

text \<open>
  The function is one body in the source.  It is cut here at its own comment lines into
  the stages the properties speak of: the AI features (lines 148-179), the human features
  (lines 182-213), the two bases and the normalised pair (lines 216-221) and the
  sensitivity step (lines 224-229).  A feature dictionary is an insertion-ordered
  association list from the feature name to its flag.
\<close>

definition ai_features_scores :: "unicode_db \<Rightarrow> ustr \<Rightarrow> ((ustr \<times> bool) list \<times> real list) option" where
  "ai_features_scores U text = do {
     let ai_features = [];
     let ai_scores = [];
     let repeated = count_repeated_phrases U text;
     let ai_features = AList.update [0x91CD, 0x8907, 0x77ED, 0x8A9E, 0x591A] (repeated > 3) ai_features;
     let ai_scores = (if repeated > 3 then ai_scores @ [0.15] else ai_scores);
     formal \<leftarrow> detect_formal_language U text;
     let ai_features = AList.update [0x904E, 0x5EA6, 0x6B63, 0x5F0F] (formal > 0.6) ai_features;
     let ai_scores = (if formal > 0.6 then ai_scores @ [0.12] else ai_scores);
     grammar \<leftarrow> check_grammar_perfection U text;
     let ai_features = AList.update [0x8A9E, 0x6CD5, 0x5B8C, 0x7F8E] (grammar > 0.8) ai_features;
     let ai_scores = (if grammar > 0.8 then ai_scores @ [0.12] else ai_scores);
     let formulaic = check_formulaic_patterns U text;
     let ai_features = AList.update [0x6A21, 0x5F0F, 0x5316, 0x77ED, 0x8A9E] formulaic ai_features;
     let ai_scores = (if formulaic then ai_scores @ [0.10] else ai_scores);
     structure \<leftarrow> analyze_structure text;
     let ai_features = AList.update [0x7D50, 0x69CB, 0x904E, 0x898F, 0x5F8B] (structure > 0.7) ai_features;
     let ai_scores = (if structure > 0.7 then ai_scores @ [0.10] else ai_scores);
     Some (ai_features, ai_scores)
   }"

definition human_features_scores :: "unicode_db \<Rightarrow> ustr \<Rightarrow> ((ustr \<times> bool) list \<times> real list) option" where
  "human_features_scores U text = do {
     let human_features = [];
     let human_scores = [];
     let contractions = count_contractions U text;
     let human_features = AList.update [0x4F7F, 0x7528, 0x7E2E, 0x5BEB] (contractions > 1) human_features;
     let human_scores = (if contractions > 1 then human_scores @ [0.15] else human_scores);
     errors \<leftarrow> detect_natural_errors U text;
     let human_features = AList.update [0x81EA, 0x7136, 0x932F, 0x8AA4] (errors > 0.01) human_features;
     let human_scores = (if errors > 0.01 then human_scores @ [0.12] else human_scores);
     emotion \<leftarrow> detect_emotional_language U text;
     let human_features = AList.update [0x60C5, 0x611F, 0x8868, 0x73FE] (emotion > 0.05) human_features;
     let human_scores = (if emotion > 0.05 then human_scores @ [0.15] else human_scores);
     casual \<leftarrow> detect_casual_language U text;
     let human_features = AList.update [0x53E3, 0x8A9E, 0x7528, 0x8A5E] (casual > 0.05) human_features;
     let human_scores = (if casual > 0.05 then human_scores @ [0.12] else human_scores);
     opinion \<leftarrow> detect_personal_opinions U text;
     let human_features = AList.update [0x500B, 0x4EBA, 0x89C0, 0x9EDE] (opinion > 0.05) human_features;
     let human_scores = (if opinion > 0.05 then human_scores @ [0.10] else human_scores);
     Some (human_features, human_scores)
   }"

text \<open>Lines 216-217.\<close>

definition ai_base :: "real list \<Rightarrow> real" where
  "ai_base ai_scores = min 0.95 (sum_list ai_scores + 0.15)"

definition human_base :: "real list \<Rightarrow> real" where
  "human_base human_scores = min 0.95 (sum_list human_scores + 0.1)"

text \<open>Lines 219-221: the pair before the sensitivity step.\<close>

definition normalise :: "real \<Rightarrow> real \<Rightarrow> (real \<times> real) option" where
  "normalise a_base h_base = do {
     let total = a_base + h_base;
     ai_score \<leftarrow> (if total > 0 then py_div a_base total else Some 0.5);
     let human_score = 1 - ai_score;
     Some (ai_score, human_score)
   }"

text \<open>Lines 224-229.\<close>

definition apply_sensitivity :: "real \<Rightarrow> real \<times> real \<Rightarrow> real \<times> real" where
  "apply_sensitivity sensitivity scores =
     (case scores of (ai_score, human_score) \<Rightarrow>
        if sensitivity < 0.75 then
          (let ai_score = ai_score * 0.85; human_score = 1 - ai_score in (ai_score, human_score))
        else if sensitivity > 0.85 then
          (let ai_score = min 0.99 (ai_score * 1.15); human_score = 1 - ai_score
           in (ai_score, human_score))
        else (ai_score, human_score))"

text \<open>
  The result: the source returns \<open>ai_score, human_score, details\<close> with the two feature
  dictionaries inside \<open>details\<close>.
\<close>

record analysis =
  ai_score :: real
  human_score :: real
  ai_features :: "(ustr \<times> bool) list"
  human_features :: "(ustr \<times> bool) list"

text \<open>The body up to line 221: the pair as it is before the sensitivity step.\<close>

definition score_pair :: "unicode_db \<Rightarrow> ustr \<Rightarrow> (real \<times> real) option" where
  "score_pair U text = do {
     (af, ai_scores) \<leftarrow> ai_features_scores U text;
     (hf, human_scores) \<leftarrow> human_features_scores U text;
     normalise (ai_base ai_scores) (human_base human_scores)
   }"

definition analyze_text :: "unicode_db \<Rightarrow> ustr \<Rightarrow> real \<Rightarrow> analysis option" where
  "analyze_text U text sensitivity = do {
     (af, ai_scores) \<leftarrow> ai_features_scores U text;
     (hf, human_scores) \<leftarrow> human_features_scores U text;
     scores \<leftarrow> normalise (ai_base ai_scores) (human_base human_scores);
     let (a, h) = apply_sensitivity sensitivity scores;
     Some \<lparr>ai_score = a, human_score = h, ai_features = af, human_features = hf\<rparr>
   }"

section \<open>Notions used to state the properties\<close>

text \<open>The list \<open>sentences\<close> of line 70 and the token count \<open>len(text.split())\<close>.\<close>

definition sentences_of :: "ustr \<Rightarrow> ustr list" where
  "sentences_of t = map strip (filter (\<lambda>s. strip s \<noteq> []) (split_on 0x3002 t))"

definition tokens :: "ustr \<Rightarrow> real" where
  "tokens t = real (length (split t))"

text \<open>
  The list \<open>lengths\<close> of line 74, and the mean and the population variance that line 78
  divides: \<open>cv = variance / (mean_len + 1)\<close>.
\<close>

definition sentence_lengths :: "ustr \<Rightarrow> real list" where
  "sentence_lengths t = map (\<lambda>s. real (length (split s))) (sentences_of t)"

definition mean_of :: "real list \<Rightarrow> real" where
  "mean_of xs = sum_list xs / real (length xs)"

definition variance_of :: "real list \<Rightarrow> real" where
  "variance_of xs = mean_of (map (\<lambda>x. (x - mean_of xs)\<^sup>2) xs)"

text \<open>The value of \<open>errors\<close> at line 47: double spaces plus sentences not starting in upper case.\<close>

definition grammar_errors :: "unicode_db \<Rightarrow> ustr \<Rightarrow> int" where
  "grammar_errors U t =
     (if contains t (str_of ''  '') then count_sub t (str_of ''  '') else 0)
     + count_if (\<lambda>s. strip s \<noteq> [] \<and> \<not> isupper U (hd (strip s))) (split_on 0x3002 t)"

text \<open>The keys of the two feature dictionaries, in the order lines 153-211 insert them.\<close>

definition ai_feature_names :: "ustr list" where
  "ai_feature_names =
     [[0x91CD, 0x8907, 0x77ED, 0x8A9E, 0x591A], [0x904E, 0x5EA6, 0x6B63, 0x5F0F],
      [0x8A9E, 0x6CD5, 0x5B8C, 0x7F8E], [0x6A21, 0x5F0F, 0x5316, 0x77ED, 0x8A9E],
      [0x7D50, 0x69CB, 0x904E, 0x898F, 0x5F8B]]"

definition human_feature_names :: "ustr list" where
  "human_feature_names =
     [[0x4F7F, 0x7528, 0x7E2E, 0x5BEB], [0x81EA, 0x7136, 0x932F, 0x8AA4],
      [0x60C5, 0x611F, 0x8868, 0x73FE], [0x53E3, 0x8A9E, 0x7528, 0x8A5E],
      [0x500B, 0x4EBA, 0x89C0, 0x9EDE]]"

text \<open>
  The specification's table of contributions (section 4.2) and its group sum: the sum of
  the contributions of the flags that are true.
\<close>

definition ai_weights :: "real list" where
  "ai_weights = [0.15, 0.12, 0.12, 0.10, 0.10]"

definition human_weights :: "real list" where
  "human_weights = [0.15, 0.12, 0.15, 0.12, 0.10]"

definition group_sum :: "(ustr \<times> bool) list \<Rightarrow> real list \<Rightarrow> real" where
  "group_sum flags weights =
     sum_list (map (\<lambda>(flag, w). if snd flag then w else 0) (zip flags weights))"

text \<open>The contributions \<open>append\<close>ed to a score list: those of the true flags, in order.\<close>

definition picked :: "bool list \<Rightarrow> real list \<Rightarrow> real list" where
  "picked flags weights = map snd (filter fst (zip flags weights))"

text \<open>
  The specification's combiner (section 4.3) and sensitivity adjuster (section 4.4), written
  from its words, to be compared with \<open>normalise\<close> and \<open>apply_sensitivity\<close>.
\<close>

definition spec_score_pair :: "real \<Rightarrow> real \<Rightarrow> real \<times> real" where
  "spec_score_pair a h =
     (let total = a + h; p = (if total > 0 then a / total else 0.5) in (p, 1 - p))"

definition spec_adjust :: "real \<Rightarrow> real \<Rightarrow> real" where
  "spec_adjust s p = (if s < 0.75 then 0.85 * p else if s > 0.85 then min 0.99 (1.15 * p) else p)"

text \<open>The sensitivity step applied to a pair whose second component is the complement.\<close>

definition adjusted :: "real \<Rightarrow> real \<Rightarrow> real \<times> real" where
  "adjusted s p = apply_sensitivity s (p, 1 - p)"

text \<open>A sample text on which the extractors are evaluated.\<close>

definition sample_text :: ustr where
  "sample_text = str_of ''However however however''"

text \<open>A text of two sentences, of one and of three tokens.\<close>

definition two_sentences :: ustr where
  "two_sentences = str_of ''a'' @ [0x3002] @ str_of ''b c d''"

section \<open>Auxiliary facts\<close>

lemma count_if_length: "count_if p xs = int (length (filter p xs))"
  unfolding count_if_def by (induction xs) auto

lemma count_if_nonneg: "0 \<le> count_if p xs"
  by (simp add: count_if_length)

lemma count_if_le_length: "count_if p xs \<le> int (length xs)"
  by (simp add: count_if_length)

lemma count_sub_nonneg: "0 \<le> count_sub t sub"
proof (induction t sub rule: count_sub.induct)
  case (1 t sub)
  show ?case
    using 1 by (subst count_sub.simps) auto
qed

lemma py_div_Some: "b \<noteq> 0 \<Longrightarrow> py_div a b = Some (a / b)"
  by (simp add: py_div_def)

lemma those_map_Some:
  "(\<And>x. x \<in> set xs \<Longrightarrow> f x = Some (g x)) \<Longrightarrow> those (map f xs) = Some (map g xs)"
  by (induction xs) auto

lemma cap_error_Some:
  "cap_error U s = Some (strip s \<noteq> [] \<and> \<not> isupper U (hd (strip s)))"
  by (cases "strip s") (auto simp: cap_error_def py_index_def)

lemma detect_formal_language_eq:
  "detect_formal_language U t =
     Some (min 1 (real_of_int (count_if (contains (lower U t)) formal_words) / 3))"
  unfolding detect_formal_language_def Let_def
  by (simp add: py_div_def)

lemma count_if_map: "count_if p (map f xs) = count_if (p \<circ> f) xs"
  by (simp add: count_if_length filter_map)

lemma grammar_errors_nonneg: "0 \<le> grammar_errors U t"
proof -
  have "0 \<le> count_sub t (str_of ''  '')" by (rule count_sub_nonneg)
  moreover have "0 \<le> count_if (\<lambda>s. strip s \<noteq> [] \<and> \<not> isupper U (hd (strip s))) (split_on 0x3002 t)"
    by (rule count_if_nonneg)
  ultimately show ?thesis unfolding grammar_errors_def by (simp split: if_splits)
qed

lemma max1_nonzero: "max 1 (x::real) \<noteq> 0"
proof -
  have "1 \<le> max 1 x" by (rule max.cobounded1)
  then show ?thesis by linarith
qed

lemma py_div_max1: "py_div a (max 1 x) = Some (a / max 1 x)"
  using max1_nonzero [of x] by (simp only: py_div_def if_False)

lemma py_div_const: "py_div a (numeral n) = Some (a / numeral n)"
  by (simp add: py_div_def)

lemma those_cap_error:
  "those (map (cap_error U) ss) = Some (map (\<lambda>s. strip s \<noteq> [] \<and> \<not> isupper U (hd (strip s))) ss)"
  by (rule those_map_Some) (rule cap_error_Some)

lemma check_grammar_perfection_eq:
  "check_grammar_perfection U t =
     Some (max 0 (1 - real_of_int (grammar_errors U t) / max 1 (real (length (split t)) / 10)))"
  unfolding check_grammar_perfection_def Let_def those_cap_error py_div_const py_div_max1
    bind.bind_lunit count_if_map comp_def grammar_errors_def
  by (simp only: add_0)

lemma np_mean_Some: "xs \<noteq> [] \<Longrightarrow> np_mean xs = Some (sum_list xs / real (length xs))"
  by (simp add: np_mean_def py_div_def)

lemma np_var_Some:
  assumes "xs \<noteq> []"
  shows "np_var xs = Some (sum_list (map (\<lambda>x. (x - sum_list xs / real (length xs))\<^sup>2) xs) / real (length xs))"
proof -
  have "map (\<lambda>x. (x - sum_list xs / real (length xs))\<^sup>2) xs \<noteq> []"
    using assms by simp
  then show ?thesis
    unfolding np_var_def using assms by (simp add: np_mean_Some)
qed

lemma sum_list_nonneg_real: "(\<And>x. x \<in> set xs \<Longrightarrow> 0 \<le> x) \<Longrightarrow> 0 \<le> sum_list (xs :: real list)"
  by (induction xs) auto

lemma np_var_nonneg: "np_var xs = Some v \<Longrightarrow> 0 \<le> v"
proof (cases "xs = []")
  case True
  assume "np_var xs = Some v"
  with True show ?thesis by (simp add: np_var_def np_mean_def)
next
  case False
  assume v: "np_var xs = Some v"
  have "0 \<le> sum_list (map (\<lambda>x. (x - sum_list xs / real (length xs))\<^sup>2) xs)"
    by (rule sum_list_nonneg_real) auto
  then have "0 \<le> sum_list (map (\<lambda>x. (x - sum_list xs / real (length xs))\<^sup>2) xs) / real (length xs)"
    by (rule divide_nonneg_nonneg) simp
  then show ?thesis
    using v np_var_Some [OF False] by simp
qed

lemma np_mean_nonneg:
  "np_mean xs = Some m \<Longrightarrow> (\<And>x. x \<in> set xs \<Longrightarrow> 0 \<le> x) \<Longrightarrow> 0 \<le> m"
proof (cases "xs = []")
  case True
  assume "np_mean xs = Some m"
  with True show ?thesis by (simp add: np_mean_def)
next
  case False
  assume m: "np_mean xs = Some m" and nn: "\<And>x. x \<in> set xs \<Longrightarrow> 0 \<le> x"
  have "0 \<le> sum_list xs" using nn by (rule sum_list_nonneg_real)
  then have "0 \<le> sum_list xs / real (length xs)"
    by (rule divide_nonneg_nonneg) simp
  then show ?thesis
    using m np_mean_Some [OF False] by simp
qed

lemma analyze_structure_short:
  "length (sentences_of t) < 2 \<Longrightarrow> analyze_structure t = Some 0"
  unfolding analyze_structure_def sentences_of_def Let_def by (simp only: if_True)

lemma structure_tail:
  assumes "0 \<le> variance" and "0 \<le> mean_len"
  shows "\<exists>v. (py_div variance (mean_len + 1) \<bind> (\<lambda>cv. py_div cv 3 \<bind> (\<lambda>third. Some (1 - min 1.0 third)))) = Some v
             \<and> 0 \<le> v \<and> v \<le> 1"
proof -
  have nz: "mean_len + 1 \<noteq> 0" using assms by linarith
  have cv: "0 \<le> variance / (mean_len + 1)"
    using assms by (intro divide_nonneg_nonneg) linarith+
  then have third: "0 \<le> variance / (mean_len + 1) / 3"
    by (rule divide_nonneg_nonneg) simp
  have eq: "(py_div variance (mean_len + 1) \<bind> (\<lambda>cv. py_div cv 3 \<bind> (\<lambda>third. Some (1 - min 1.0 third))))
            = Some (1 - min 1.0 (variance / (mean_len + 1) / 3))"
    using nz by (simp add: py_div_def)
  have "0 \<le> 1 - min 1.0 (variance / (mean_len + 1) / 3)" by simp
  moreover have "1 - min 1.0 (variance / (mean_len + 1) / 3) \<le> 1" using third by simp
  ultimately show ?thesis using eq by blast
qed

lemma analyze_structure_bounded:
  "\<exists>v. analyze_structure t = Some v \<and> 0 \<le> v \<and> v \<le> 1"
proof (cases "length (sentences_of t) < 2")
  case True
  then show ?thesis by (simp add: analyze_structure_short)
next
  case False
  define lengths where "lengths = map (\<lambda>s. real (length (split s))) (sentences_of t)"
  have ne: "lengths \<noteq> []" and len: "length lengths > 1"
    using False by (auto simp: lengths_def)
  obtain variance where var: "np_var lengths = Some variance"
    using np_var_Some [OF ne] by blast
  obtain mean_len where mean: "np_mean lengths = Some mean_len"
    using np_mean_Some [OF ne] by blast
  have v0: "0 \<le> variance" using var by (rule np_var_nonneg)
  have m0: "0 \<le> mean_len" using mean by (rule np_mean_nonneg) (auto simp: lengths_def)
  have "analyze_structure t =
          (py_div variance (mean_len + 1) \<bind> (\<lambda>cv. py_div cv 3 \<bind> (\<lambda>third. Some (1 - min 1.0 third))))"
    unfolding analyze_structure_def Let_def
    using False ne len var mean
    by (simp only: sentences_of_def [symmetric] lengths_def [symmetric] if_False if_True not_False_eq_True bind.bind_lunit)
  then show ?thesis using structure_tail [OF v0 m0] by simp
qed

lemma detect_natural_errors_eq:
  "detect_natural_errors U t =
     Some (real_of_int (fold (\<lambda>word errors. errors + count_sub (lower U t) word) double_words 0)
           / max 1 (tokens t / 10))"
  unfolding detect_natural_errors_def Let_def py_div_const py_div_max1 bind.bind_lunit tokens_def
  by (rule refl)

lemma detect_emotional_language_eq:
  "detect_emotional_language U t =
     Some (real_of_int (count_if (contains (lower U t)) emotional) / max 1 (tokens t / 5))"
  unfolding detect_emotional_language_def Let_def py_div_const py_div_max1 bind.bind_lunit tokens_def
  by (rule refl)

lemma detect_casual_language_eq:
  "detect_casual_language U t =
     Some (real_of_int (count_if (contains (lower U t)) casual) / max 1 (tokens t / 5))"
  unfolding detect_casual_language_def Let_def py_div_const py_div_max1 bind.bind_lunit tokens_def
  by (rule refl)

lemma detect_personal_opinions_eq:
  "detect_personal_opinions U t =
     Some (real_of_int (count_if (contains (lower U t)) opinions) / max 1 (tokens t / 5))"
  unfolding detect_personal_opinions_def Let_def py_div_const py_div_max1 bind.bind_lunit tokens_def
  by (rule refl)

lemma ai_features_scores_eq:
  assumes "detect_formal_language U t = Some formal"
    and "check_grammar_perfection U t = Some grammar"
    and "analyze_structure t = Some structure"
  shows "ai_features_scores U t =
     Some (zip ai_feature_names
             [count_repeated_phrases U t > 3, formal > 0.6, grammar > 0.8,
              check_formulaic_patterns U t, structure > 0.7],
           (if count_repeated_phrases U t > 3 then [0.15] else [])
           @ (if formal > 0.6 then [0.12] else [])
           @ (if grammar > 0.8 then [0.12] else [])
           @ (if check_formulaic_patterns U t then [0.10] else [])
           @ (if structure > 0.7 then [0.10] else []))"
  unfolding ai_features_scores_def Let_def assms bind.bind_lunit ai_feature_names_def
  by (simp add: AList.update.simps)

lemma human_features_scores_eq:
  assumes "detect_natural_errors U t = Some errors"
    and "detect_emotional_language U t = Some emotion"
    and "detect_casual_language U t = Some casl"
    and "detect_personal_opinions U t = Some opinion"
  shows "human_features_scores U t =
     Some (zip human_feature_names
             [count_contractions U t > 1, errors > 0.01, emotion > 0.05,
              casl > 0.05, opinion > 0.05],
           (if count_contractions U t > 1 then [0.15] else [])
           @ (if errors > 0.01 then [0.12] else [])
           @ (if emotion > 0.05 then [0.15] else [])
           @ (if casl > 0.05 then [0.12] else [])
           @ (if opinion > 0.05 then [0.10] else []))"
  unfolding human_features_scores_def Let_def assms bind.bind_lunit human_feature_names_def
  by (simp add: AList.update.simps)

lemma picked_sum:
  "length names = length flags \<Longrightarrow>
   sum_list (picked flags weights) = group_sum (zip names flags) weights"
proof (induction flags arbitrary: names weights)
  case Nil
  then show ?case by (simp add: picked_def group_sum_def)
next
  case (Cons b bs)
  then obtain n ns where names: "names = n # ns" and l: "length ns = length bs"
    by (cases names) auto
  show ?case
  proof (cases weights)
    case Nil
    then show ?thesis by (simp add: picked_def group_sum_def)
  next
    case (Cons w ws)
    have "sum_list (picked bs ws) = group_sum (zip ns bs) ws"
      using Cons.IH [OF l] .
    then show ?thesis
      unfolding names Cons by (simp add: picked_def group_sum_def)
  qed
qed

lemma picked_nonneg:
  "(\<And>w. w \<in> set weights \<Longrightarrow> 0 \<le> w) \<Longrightarrow> 0 \<le> sum_list (picked flags weights)"
  unfolding picked_def
  by (rule sum_list_nonneg_real) (auto dest!: set_zip_rightD)

lemma picked5:
  "(if b1 then [w1] else []) @ (if b2 then [w2] else []) @ (if b3 then [w3] else [])
     @ (if b4 then [w4] else []) @ (if b5 then [w5] else [])
   = picked [b1, b2, b3, b4, b5] [w1, w2, w3, w4, w5]"
  by (simp add: picked_def)

lemma ai_features_scores_shape:
  "\<exists>flags. length flags = 5
     \<and> ai_features_scores U t = Some (zip ai_feature_names flags, picked flags ai_weights)"
proof -
  obtain st where s: "analyze_structure t = Some st"
    using analyze_structure_bounded by blast
  note eq = ai_features_scores_eq [OF detect_formal_language_eq check_grammar_perfection_eq s]
  show ?thesis
    unfolding eq picked5 ai_weights_def [symmetric]
    by (rule exI [of _ "[_, _, _, _, _]"]) (simp only: length_Cons list.size simp_thms, simp)
qed

lemma human_features_scores_shape:
  "\<exists>flags. length flags = 5
     \<and> human_features_scores U t = Some (zip human_feature_names flags, picked flags human_weights)"
proof -
  note eq = human_features_scores_eq [OF detect_natural_errors_eq detect_emotional_language_eq
      detect_casual_language_eq detect_personal_opinions_eq]
  show ?thesis
    unfolding eq picked5 human_weights_def [symmetric]
    by (rule exI [of _ "[_, _, _, _, _]"]) (simp only: length_Cons list.size simp_thms, simp)
qed

lemma ai_stage:
  obtains af as where "ai_features_scores U t = Some (af, as)"
    and "sum_list as = group_sum af ai_weights"
    and "0 \<le> sum_list as"
    and "map fst af = ai_feature_names"
proof -
  obtain flags where l: "length flags = 5"
    and eq: "ai_features_scores U t = Some (zip ai_feature_names flags, picked flags ai_weights)"
    using ai_features_scores_shape by blast
  have ln: "length ai_feature_names = length flags"
    using l by (simp add: ai_feature_names_def)
  show thesis
  proof (rule that [OF eq])
    show "sum_list (picked flags ai_weights) = group_sum (zip ai_feature_names flags) ai_weights"
      using ln by (rule picked_sum)
    show "0 \<le> sum_list (picked flags ai_weights)"
      by (rule picked_nonneg) (auto simp: ai_weights_def)
    show "map fst (zip ai_feature_names flags) = ai_feature_names"
      using ln by simp
  qed
qed

lemma human_stage:
  obtains hf hs where "human_features_scores U t = Some (hf, hs)"
    and "sum_list hs = group_sum hf human_weights"
    and "0 \<le> sum_list hs"
    and "map fst hf = human_feature_names"
proof -
  obtain flags where l: "length flags = 5"
    and eq: "human_features_scores U t = Some (zip human_feature_names flags, picked flags human_weights)"
    using human_features_scores_shape by blast
  have ln: "length human_feature_names = length flags"
    using l by (simp add: human_feature_names_def)
  show thesis
  proof (rule that [OF eq])
    show "sum_list (picked flags human_weights) = group_sum (zip human_feature_names flags) human_weights"
      using ln by (rule picked_sum)
    show "0 \<le> sum_list (picked flags human_weights)"
      by (rule picked_nonneg) (auto simp: human_weights_def)
    show "map fst (zip human_feature_names flags) = human_feature_names"
      using ln by simp
  qed
qed

lemma ai_base_bounds: "0 \<le> sum_list xs \<Longrightarrow> 0.15 \<le> ai_base xs \<and> ai_base xs \<le> 0.95"
  unfolding ai_base_def by (simp add: min_def)

lemma human_base_bounds: "0 \<le> sum_list xs \<Longrightarrow> 0.1 \<le> human_base xs \<and> human_base xs \<le> 0.95"
  unfolding human_base_def by (simp add: min_def)

lemma normalise_pos:
  "0 < a + h \<Longrightarrow> normalise a h = Some (a / (a + h), 1 - a / (a + h))"
  unfolding normalise_def Let_def by (simp add: py_div_def)

lemma normalise_zero:
  "\<not> 0 < a + h \<Longrightarrow> normalise a h = Some (0.5, 1 - 0.5)"
  unfolding normalise_def Let_def by simp

lemma ratio_bounds:
  fixes a h :: real
  assumes "0.15 \<le> a" "a \<le> 0.95" "0.1 \<le> h" "h \<le> 0.95"
  shows "0 \<le> a / (a + h)" and "a / (a + h) \<le> 0.95 / 1.05"
proof -
  have pos: "0 < a + h" using assms by simp
  have "0 \<le> a" using assms by simp
  then show "0 \<le> a / (a + h)" using pos by simp
  have "a * 1.05 \<le> 0.95 * (a + h)" using assms by simp
  then show "a / (a + h) \<le> 0.95 / 1.05"
    using pos by (simp add: field_simps)
qed

lemma pipeline:
  "\<exists>af as hf hs.
     ai_features_scores U t = Some (af, as)
     \<and> human_features_scores U t = Some (hf, hs)
     \<and> sum_list as = group_sum af ai_weights
     \<and> sum_list hs = group_sum hf human_weights
     \<and> map fst af = ai_feature_names \<and> map fst hf = human_feature_names
     \<and> 0.15 \<le> ai_base as \<and> ai_base as \<le> 0.95
     \<and> 0.1 \<le> human_base hs \<and> human_base hs \<le> 0.95
     \<and> score_pair U t = Some (ai_base as / (ai_base as + human_base hs),
                            1 - ai_base as / (ai_base as + human_base hs))
     \<and> (\<forall>s. analyze_text U t s =
           Some \<lparr>ai_score = fst (adjusted s (ai_base as / (ai_base as + human_base hs))),
                 human_score = snd (adjusted s (ai_base as / (ai_base as + human_base hs))),
                 ai_features = af, human_features = hf\<rparr>)"
proof -
  obtain af as where a: "ai_features_scores U t = Some (af, as)"
    and asum: "sum_list as = group_sum af ai_weights" and a0: "0 \<le> sum_list as"
    and an: "map fst af = ai_feature_names"
    by (rule ai_stage)
  obtain hf hs where h: "human_features_scores U t = Some (hf, hs)"
    and hsum: "sum_list hs = group_sum hf human_weights" and h0: "0 \<le> sum_list hs"
    and hn: "map fst hf = human_feature_names"
    by (rule human_stage)
  note ab = ai_base_bounds [OF a0] and hb = human_base_bounds [OF h0]
  have pos: "0 < ai_base as + human_base hs" using ab hb by simp
  note n = normalise_pos [OF pos]
  have sp: "score_pair U t = Some (ai_base as / (ai_base as + human_base hs),
                            1 - ai_base as / (ai_base as + human_base hs))"
    unfolding score_pair_def by (simp add: a h n)
  have at: "\<forall>s. analyze_text U t s =
        Some \<lparr>ai_score = fst (adjusted s (ai_base as / (ai_base as + human_base hs))),
              human_score = snd (adjusted s (ai_base as / (ai_base as + human_base hs))),
              ai_features = af, human_features = hf\<rparr>"
    unfolding analyze_text_def adjusted_def by (simp add: a h n case_prod_beta)
  show ?thesis
    using a h asum hsum an hn ab hb sp at by blast
qed

lemma normalise_spec: "normalise a h = Some (spec_score_pair a h)"
  by (cases "0 < a + h") (simp_all add: normalise_pos normalise_zero spec_score_pair_def Let_def)

lemma apply_sensitivity_spec:
  "apply_sensitivity s (p, 1 - p) = (spec_adjust s p, 1 - spec_adjust s p)"
  unfolding apply_sensitivity_def spec_adjust_def Let_def
  by (simp add: mult.commute)

lemma adjust_bounds:
  assumes "0 \<le> p" "p \<le> 0.95 / 1.05"
  shows "0 \<le> spec_adjust s p" "spec_adjust s p \<le> 1"
    "spec_adjust 0.6 p \<le> spec_adjust 0.8 p" "spec_adjust 0.8 p \<le> spec_adjust 0.9 p"
  using assms unfolding spec_adjust_def by (simp_all add: min_def)

lemma formal_words_distinct: "distinct formal_words"
  unfolding formal_words_def str_of_def by simp

lemma count_if_card: "distinct xs \<Longrightarrow> count_if p xs = int (card {x \<in> set xs. p x})"
proof -
  assume d: "distinct xs"
  have "card (set (filter p xs)) = length (filter p xs)"
    using d by (intro distinct_card distinct_filter)
  then show ?thesis
    by (simp add: count_if_length)
qed

lemma count_sub_empty: "sub \<noteq> [] \<Longrightarrow> count_sub [] sub = 0"
  by (subst count_sub.simps) simp

lemma empty_values:
  assumes "lower U [] = []"
  shows "count_repeated_phrases U [] = 0"
    and "detect_formal_language U [] = Some 0"
    and "check_grammar_perfection U [] = Some 1"
    and "check_formulaic_patterns U [] = False"
    and "analyze_structure [] = Some 0"
    and "count_contractions U [] = 0"
    and "detect_natural_errors U [] = Some 0"
    and "detect_emotional_language U [] = Some 0"
    and "detect_casual_language U [] = Some 0"
    and "detect_personal_opinions U [] = Some 0"
proof -
  show "count_repeated_phrases U [] = 0"
    unfolding count_repeated_phrases_def assms by (simp add: split_def)
  show "detect_formal_language U [] = Some 0"
    unfolding detect_formal_language_eq assms
    by (simp add: formal_words_def str_of_def count_if_def)
  show "check_grammar_perfection U [] = Some 1"
    unfolding check_grammar_perfection_eq grammar_errors_def
    by (simp add: str_of_def count_if_def strip_def split_def)
  show "check_formulaic_patterns U [] = False"
    unfolding check_formulaic_patterns_def assms
    by (simp add: patterns_def str_of_def count_if_def)
  show "analyze_structure [] = Some 0"
    by (rule analyze_structure_short) (simp add: sentences_of_def strip_def)
  show "count_contractions U [] = 0"
    unfolding count_contractions_def assms
    by (simp add: contractions_def apos_def count_sub_empty)
  show "detect_natural_errors U [] = Some 0"
    unfolding detect_natural_errors_eq assms
    by (simp add: double_words_def str_of_def count_sub_empty)
  show "detect_emotional_language U [] = Some 0"
    unfolding detect_emotional_language_eq assms
    by (simp add: emotional_def str_of_def count_if_def)
  show "detect_casual_language U [] = Some 0"
    unfolding detect_casual_language_eq assms
    by (simp add: casual_def str_of_def count_if_def)
  show "detect_personal_opinions U [] = Some 0"
    unfolding detect_personal_opinions_eq assms
    by (simp add: opinions_def str_of_def count_if_def)
qed

lemma lower_however:
  "lower ascii_db (str_of ''however however however'') = str_of ''however however however''"
  by (simp add: ascii_db_def ascii_lower_def str_of_def)

lemma count_however:
  "count_if (contains (str_of ''however however however'')) formal_words = 1"
  by (simp add: str_of_def formal_words_def count_if_def)

lemma count_sub_however:
  "count_sub (str_of ''however however however'') (str_of ''however'') = 3"
  unfolding str_of_def by (simp add: count_sub.simps)

subsection \<open>Splitting commutes with the ASCII case table\<close>

lemma split_acc_map:
  assumes "\<And>c. isspace (f c) = isspace c"
  shows "split_acc (map f cur) (map f cs) = map (map f) (split_acc cur cs)"
proof (induction cs arbitrary: cur)
  case Nil
  show ?case by simp
next
  case (Cons c cs)
  have "split_acc (map f (cur @ [c])) (map f cs) = map (map f) (split_acc (cur @ [c]) cs)"
    by (rule Cons.IH)
  moreover have "split_acc (map f []) (map f cs) = map (map f) (split_acc [] cs)"
    by (rule Cons.IH)
  ultimately show ?case
    by (simp add: assms)
qed

lemma split_map:
  "(\<And>c. isspace (f c) = isspace c) \<Longrightarrow> split (map f t) = map (map f) (split t)"
  unfolding split_def using split_acc_map [of f "[]" t] by simp

lemma ascii_lower_space: "isspace (if 65 \<le> c \<and> c \<le> 90 then c + 32 else c) = isspace c"
  by (auto simp: isspace_def)

lemma split_ascii_lower: "split (lower ascii_db t) = map ascii_lower (split t)"
proof -
  have "split (map (\<lambda>c. if 65 \<le> c \<and> c \<le> 90 then c + 32 else c) t)
        = map (map (\<lambda>c. if 65 \<le> c \<and> c \<le> 90 then c + 32 else c)) (split t)"
    by (rule split_map) (rule ascii_lower_space)
  then show ?thesis
    by (simp add: ascii_db_def ascii_lower_def [abs_def])
qed

lemma split_ab:
  "split (lower ascii_db (str_of ''Ab ab AB'')) = [str_of ''ab'', str_of ''ab'', str_of ''ab'']"
  by (simp add: ascii_db_def ascii_lower_def str_of_def split_def isspace_def)

lemma split_hey:
  "split (str_of ''Hey Hey Hey'') = [str_of ''Hey'', str_of ''Hey'', str_of ''Hey'']"
  by (simp add: str_of_def split_def isspace_def)

lemma lower_hey: "ascii_lower (str_of ''Hey'') = str_of ''hey''"
  by (simp add: ascii_lower_def str_of_def)

subsection \<open>The sample text, evaluated\<close>

lemma sample_codes:
  "sample_text = [72, 111, 119, 101, 118, 101, 114, 32, 104, 111, 119, 101, 118, 101, 114, 32,
             104, 111, 119, 101, 118, 101, 114]"
  by (simp add: sample_text_def str_of_def)

lemma sample_lower:
  "lower ascii_db sample_text = [104, 111, 119, 101, 118, 101, 114, 32, 104, 111, 119, 101, 118, 101, 114, 32,
             104, 111, 119, 101, 118, 101, 114]"
  unfolding sample_codes by (simp add: ascii_db_def ascii_lower_def)

lemma sample_split: "split sample_text = [[72, 111, 119, 101, 118, 101, 114], [104, 111, 119, 101, 118, 101, 114], [104, 111, 119, 101, 118, 101, 114]]"
  unfolding sample_codes by (simp add: split_def isspace_def)

lemma sample_repeated: "count_repeated_phrases ascii_db sample_text = 0"
proof -
  have w: "split (lower ascii_db sample_text) = [[104, 111, 119, 101, 118, 101, 114],
      [104, 111, 119, 101, 118, 101, 114], [104, 111, 119, 101, 118, 101, 114]]"
    unfolding sample_lower by (simp add: split_def isspace_def)
  show ?thesis
    unfolding count_repeated_phrases_def Let_def w
    by (simp add: phrase_counts_def Let_def dict_get_def count_if_def str_of_def)
qed

lemma sample_formal: "detect_formal_language ascii_db sample_text = Some (1 / 3)"
  unfolding detect_formal_language_eq sample_lower
  by (simp add: formal_words_def str_of_def count_if_def)

lemma sample_grammar: "check_grammar_perfection ascii_db sample_text = Some 1"
  unfolding check_grammar_perfection_eq grammar_errors_def sample_codes
  by (simp add: str_of_def count_if_def strip_def isspace_def ascii_db_def ascii_isupper_def)

lemma sample_formulaic: "\<not> check_formulaic_patterns ascii_db sample_text"
  unfolding check_formulaic_patterns_def sample_lower Let_def
  by (simp add: patterns_def str_of_def count_if_def)

lemma sample_structure: "analyze_structure sample_text = Some 0"
  by (rule analyze_structure_short) (simp add: sentences_of_def sample_codes strip_def isspace_def)

lemma sample_contractions: "count_contractions ascii_db sample_text = 0"
  unfolding count_contractions_def sample_lower Let_def
  by (simp add: contractions_def apos_def str_of_def count_sub.simps)

lemma sample_natural: "detect_natural_errors ascii_db sample_text = Some 0"
  unfolding detect_natural_errors_eq sample_lower
  by (simp add: double_words_def str_of_def count_sub.simps)

lemma sample_emotional: "detect_emotional_language ascii_db sample_text = Some 0"
  unfolding detect_emotional_language_eq sample_lower
  by (simp add: emotional_def str_of_def count_if_def)

lemma sample_casual: "detect_casual_language ascii_db sample_text = Some 0"
  unfolding detect_casual_language_eq sample_lower
  by (simp add: casual_def str_of_def count_if_def)

lemma sample_opinions: "detect_personal_opinions ascii_db sample_text = Some 0"
  unfolding detect_personal_opinions_eq sample_lower
  by (simp add: opinions_def str_of_def count_if_def)

lemma sample_ai:
  "ai_features_scores ascii_db sample_text =
     Some (zip ai_feature_names [False, False, True, False, False], [0.12])"
  unfolding ai_features_scores_eq [OF sample_formal sample_grammar sample_structure]
    sample_repeated
  using sample_formulaic by simp

lemma sample_human:
  "human_features_scores ascii_db sample_text =
     Some (zip human_feature_names [False, False, False, False, False], [])"
  unfolding human_features_scores_eq [OF sample_natural sample_emotional sample_casual sample_opinions]
    sample_contractions
  by simp

lemma sample_pair: "score_pair ascii_db sample_text = Some (27 / 37, 10 / 37)"
  unfolding score_pair_def
  by (simp add: sample_ai sample_human normalise_spec spec_score_pair_def ai_base_def human_base_def)

lemma sample_analysis:
  "analyze_text ascii_db sample_text s =
     Some \<lparr>ai_score = spec_adjust s (27 / 37), human_score = 1 - spec_adjust s (27 / 37),
           ai_features = zip ai_feature_names [False, False, True, False, False],
           human_features = zip human_feature_names [False, False, False, False, False]\<rparr>"
proof -
  have n: "normalise (ai_base [0.12]) (human_base []) = Some (27 / 37, 1 - 27 / 37)"
    by (simp add: normalise_spec spec_score_pair_def ai_base_def human_base_def)
  show ?thesis
    unfolding analyze_text_def sample_ai sample_human
    by (simp only: bind.bind_lunit prod.case n apply_sensitivity_spec Let_def)
qed

subsection \<open>The structural score on two or more sentences; the empty text\<close>

lemma mean_nonneg: "(\<And>x. x \<in> set xs \<Longrightarrow> 0 \<le> x) \<Longrightarrow> 0 \<le> mean_of xs"
  unfolding mean_of_def by (intro divide_nonneg_nonneg sum_list_nonneg_real) simp_all

lemma analyze_structure_long:
  assumes "2 \<le> length (sentences_of t)"
  shows "analyze_structure t
           = Some (1 - min 1 (variance_of (sentence_lengths t) / (mean_of (sentence_lengths t) + 1) / 3))"
    and "1 \<le> mean_of (sentence_lengths t) + 1"
proof -
  define lengths where "lengths = map (\<lambda>s. real (length (split s))) (sentences_of t)"
  have nshort: "\<not> length (sentences_of t) < 2" using assms by simp
  have ne: "lengths \<noteq> []" and len: "length lengths > 1"
    using assms by (auto simp: lengths_def)
  have var: "np_var lengths = Some (variance_of lengths)"
    unfolding variance_of_def mean_of_def using np_var_Some [OF ne] by simp
  have mn: "np_mean lengths = Some (mean_of lengths)"
    unfolding mean_of_def by (rule np_mean_Some [OF ne])
  have m0: "0 \<le> mean_of lengths"
    by (rule mean_nonneg) (auto simp: lengths_def)
  then have nz: "mean_of lengths + 1 \<noteq> 0" by simp
  have "analyze_structure t =
          (py_div (variance_of lengths) (mean_of lengths + 1) \<bind> (\<lambda>cv. py_div cv 3 \<bind> (\<lambda>third. Some (1 - min 1.0 third))))"
    unfolding analyze_structure_def Let_def
    using nshort ne len var mn
    by (simp only: sentences_of_def [symmetric] lengths_def [symmetric] if_False if_True not_False_eq_True bind.bind_lunit)
  then have "analyze_structure t = Some (1 - min 1 (variance_of lengths / (mean_of lengths + 1) / 3))"
    using nz by (simp add: py_div_def)
  then show "analyze_structure t
           = Some (1 - min 1 (variance_of (sentence_lengths t) / (mean_of (sentence_lengths t) + 1) / 3))"
    unfolding sentence_lengths_def lengths_def .
  show "1 \<le> mean_of (sentence_lengths t) + 1"
    using m0 unfolding sentence_lengths_def lengths_def by simp
qed

lemma empty_ai:
  assumes "lower U [] = []"
  shows "ai_features_scores U [] = Some (zip ai_feature_names [False, False, True, False, False], [0.12])"
  unfolding ai_features_scores_eq [OF empty_values(2) [OF assms] empty_values(3) [OF assms] empty_values(5) [OF assms]]
    empty_values(1) [OF assms]
  using empty_values(4) [OF assms] by simp

lemma empty_human:
  assumes "lower U [] = []"
  shows "human_features_scores U [] = Some (zip human_feature_names [False, False, False, False, False], [])"
  unfolding human_features_scores_eq [OF empty_values(7) [OF assms] empty_values(8) [OF assms]
      empty_values(9) [OF assms] empty_values(10) [OF assms]]
    empty_values(6) [OF assms]
  by simp

lemma empty_pair:
  assumes "lower U [] = []"
  shows "score_pair U [] = Some (27 / 37, 10 / 37)"
  unfolding score_pair_def
  by (simp add: empty_ai [OF assms] empty_human [OF assms] normalise_spec spec_score_pair_def
      ai_base_def human_base_def)

lemma ascii_lower_empty: "lower ascii_db [] = []"
  by (simp add: ascii_db_def ascii_lower_def)

lemma grammar_hi: "check_grammar_perfection ascii_db (str_of ''Hi'') = Some 1"
  unfolding check_grammar_perfection_eq grammar_errors_def
  by (simp add: str_of_def count_if_def strip_def isspace_def ascii_db_def ascii_isupper_def)

lemma split_hi: "split (lower ascii_db (str_of ''Hi'')) = [str_of ''hi'']"
  by (simp add: ascii_db_def ascii_lower_def str_of_def split_def isspace_def)

lemma two_sentences_codes: "two_sentences = [97, 12290, 98, 32, 99, 32, 100]"
  by (simp add: two_sentences_def str_of_def)

lemma two_sentences_of: "sentences_of two_sentences = [[97], [98, 32, 99, 32, 100]]"
  unfolding two_sentences_codes by (simp add: sentences_of_def strip_def isspace_def)

lemma two_sentences_lengths: "sentence_lengths two_sentences = [1, 3]"
  unfolding sentence_lengths_def two_sentences_of by (simp add: split_def isspace_def)

section \<open>The properties\<close>

text \<open>
  Throughout, \<open>U\<close> is any pair of case tables and \<open>t\<close> any text.  A result \<open>Some v\<close> says
  that the call returns \<open>v\<close> without raising.  Arithmetic is exact: where the
  specification says "within floating-point tolerance", the model proves equality.
\<close>

subsection \<open>C1\<close>

text \<open>
  C1.  For every text and every sensitivity \<open>s\<close> in \<open>[0.5, 1.0]\<close>, the pipeline returns,
  and both components of the score pair lie in \<open>[0, 1]\<close> and sum to 1, before the
  sensitivity step (\<open>score_pair\<close>) and after it (\<open>analyze_text\<close>).
\<close>

theorem score_pair_invariant:
  assumes "0.5 \<le> s" and "s \<le> 1"
  shows "\<exists>p h r. score_pair U t = Some (p, h) \<and> 0 \<le> p \<and> p \<le> 1 \<and> 0 \<le> h \<and> h \<le> 1 \<and> p + h = 1
           \<and> analyze_text U t s = Some r
           \<and> 0 \<le> ai_score r \<and> ai_score r \<le> 1 \<and> 0 \<le> human_score r \<and> human_score r \<le> 1
           \<and> ai_score r + human_score r = 1"
proof -
  obtain af as hf hs where
    b: "0.15 \<le> ai_base as" "ai_base as \<le> 0.95" "0.1 \<le> human_base hs" "human_base hs \<le> 0.95"
    and sp: "score_pair U t = Some (ai_base as / (ai_base as + human_base hs),
                            1 - ai_base as / (ai_base as + human_base hs))"
    and at: "\<forall>s. analyze_text U t s =
           Some \<lparr>ai_score = fst (adjusted s (ai_base as / (ai_base as + human_base hs))),
                 human_score = snd (adjusted s (ai_base as / (ai_base as + human_base hs))),
                 ai_features = af, human_features = hf\<rparr>"
    using pipeline [of U t] by blast
  define p where "p = ai_base as / (ai_base as + human_base hs)"
  have p0: "0 \<le> p" and p1: "p \<le> 0.95 / 1.05"
    unfolding p_def using ratio_bounds [OF b] by blast+
  have p1': "p \<le> 1" using p1 by simp
  note ab = adjust_bounds(1,2) [OF p0 p1, of s]
  have at': "analyze_text U t s =
           Some \<lparr>ai_score = spec_adjust s p, human_score = 1 - spec_adjust s p,
                 ai_features = af, human_features = hf\<rparr>"
    using at unfolding p_def adjusted_def apply_sensitivity_spec by simp
  show ?thesis
    unfolding sp at' p_def [symmetric]
    using p0 p1' ab by simp
qed

theorem score_pair_invariant_witness:
  "(0.5::real) \<le> 0.8 \<and> (0.8::real) \<le> 1
   \<and> score_pair ascii_db sample_text = Some (27 / 37, 10 / 37)
   \<and> map_option ai_score (analyze_text ascii_db sample_text 0.8) = Some (27 / 37)
   \<and> map_option human_score (analyze_text ascii_db sample_text 0.8) = Some (10 / 37)
   \<and> (\<exists>p h r. score_pair ascii_db sample_text = Some (p, h)
         \<and> 0 \<le> p \<and> p \<le> 1 \<and> 0 \<le> h \<and> h \<le> 1 \<and> p + h = 1
         \<and> analyze_text ascii_db sample_text 0.8 = Some r
         \<and> 0 \<le> ai_score r \<and> ai_score r \<le> 1 \<and> 0 \<le> human_score r \<and> human_score r \<le> 1
         \<and> ai_score r + human_score r = 1)"
proof -
  have h: "(0.5::real) \<le> 0.8" "(0.8::real) \<le> 1" by simp_all
  have v: "map_option ai_score (analyze_text ascii_db sample_text 0.8) = Some (27 / 37)"
    "map_option human_score (analyze_text ascii_db sample_text 0.8) = Some (10 / 37)"
    unfolding sample_analysis by (simp_all add: spec_adjust_def)
  show ?thesis
    using h score_pair_invariant [OF h, of ascii_db sample_text] sample_pair v by blast
qed

subsection \<open>C2\<close>

text \<open>
  C2.  For every text, the dictionaries returned hold the five AI flags and the five human
  flags under their names; the AI base is \<open>min(0.95, group sum + 0.15)\<close> and the human
  base \<open>min(0.95, group sum + 0.10)\<close>, the group sum being the specification's sum of
  the contributions of the true flags; and the pair before the sensitivity step is the
  specification's: AI base / total when total > 0, else 0.5, and its complement.
\<close>

theorem score_combiner_formula:
  "\<exists>af as hf hs.
     ai_features_scores U t = Some (af, as) \<and> human_features_scores U t = Some (hf, hs)
     \<and> map fst af = ai_feature_names \<and> map fst hf = human_feature_names
     \<and> (\<forall>s. map_option ai_features (analyze_text U t s) = Some af
            \<and> map_option human_features (analyze_text U t s) = Some hf)
     \<and> ai_base as = min 0.95 (group_sum af ai_weights + 0.15)
     \<and> human_base hs = min 0.95 (group_sum hf human_weights + 0.10)
     \<and> normalise (ai_base as) (human_base hs) = Some (spec_score_pair (ai_base as) (human_base hs))
     \<and> score_pair U t = Some (spec_score_pair (ai_base as) (human_base hs))"
proof -
  obtain af as hf hs where
    a: "ai_features_scores U t = Some (af, as)" and h: "human_features_scores U t = Some (hf, hs)"
    and asum: "sum_list as = group_sum af ai_weights"
    and hsum: "sum_list hs = group_sum hf human_weights"
    and an: "map fst af = ai_feature_names" and hn: "map fst hf = human_feature_names"
    and at: "\<forall>s. analyze_text U t s =
           Some \<lparr>ai_score = fst (adjusted s (ai_base as / (ai_base as + human_base hs))),
                 human_score = snd (adjusted s (ai_base as / (ai_base as + human_base hs))),
                 ai_features = af, human_features = hf\<rparr>"
    using pipeline [of U t] by blast
  have ab: "ai_base as = min 0.95 (group_sum af ai_weights + 0.15)"
    unfolding ai_base_def asum by (rule refl)
  have hb: "human_base hs = min 0.95 (group_sum hf human_weights + 0.10)"
    unfolding human_base_def hsum by simp
  have sp: "score_pair U t = Some (spec_score_pair (ai_base as) (human_base hs))"
    unfolding score_pair_def by (simp add: a h normalise_spec)
  have feats: "\<forall>s. map_option ai_features (analyze_text U t s) = Some af
            \<and> map_option human_features (analyze_text U t s) = Some hf"
    using at by simp
  show ?thesis
    using a h an hn feats ab hb normalise_spec sp by blast
qed

theorem score_combiner_formula_witness:
  "ai_features_scores ascii_db sample_text = Some (zip ai_feature_names [False, False, True, False, False], [0.12])
   \<and> human_features_scores ascii_db sample_text = Some (zip human_feature_names [False, False, False, False, False], [])
   \<and> ai_base [0.12] = 0.27 \<and> human_base [] = 0.1
   \<and> score_pair ascii_db sample_text = Some (27 / 37, 10 / 37)"
proof -
  obtain af as hf hs where
    a: "ai_features_scores ascii_db sample_text = Some (af, as)"
    and h: "human_features_scores ascii_db sample_text = Some (hf, hs)"
    and ab: "ai_base as = min 0.95 (group_sum af ai_weights + 0.15)"
    and hb: "human_base hs = min 0.95 (group_sum hf human_weights + 0.10)"
    and sp: "score_pair ascii_db sample_text = Some (spec_score_pair (ai_base as) (human_base hs))"
    using score_combiner_formula [of ascii_db sample_text] by blast
  have af: "af = zip ai_feature_names [False, False, True, False, False]" and as: "as = [0.12]"
    using a unfolding sample_ai by simp_all
  have hf: "hf = zip human_feature_names [False, False, False, False, False]" and hs: "hs = []"
    using h unfolding sample_human by simp_all
  have b1: "ai_base [0.12] = 0.27"
    using ab unfolding af as
    by (simp add: group_sum_def ai_weights_def ai_feature_names_def)
  have b2: "human_base [] = 0.1"
    using hb unfolding hf hs
    by (simp add: group_sum_def human_weights_def human_feature_names_def)
  have "score_pair ascii_db sample_text = Some (27 / 37, 10 / 37)"
    using sp unfolding as hs b1 b2 by (simp add: spec_score_pair_def)
  then show ?thesis
    using sample_ai sample_human b1 b2 by blast
qed

subsection \<open>C3\<close>

text \<open>
  C3.  For every AI probability \<open>p\<close> and sensitivity \<open>s\<close>, the sensitivity step maps
  the pair \<open>(p, 1 - p)\<close> to \<open>(a, 1 - a)\<close> where \<open>a\<close> is \<open>0.85 p\<close> when \<open>s < 0.75\<close>,
  \<open>min(0.99, 1.15 p)\<close> when \<open>s > 0.85\<close> and \<open>p\<close> otherwise; at \<open>s = 0.75\<close> and at
  \<open>s = 0.85\<close> it is \<open>p\<close>; and the pipeline's result is this step applied to the pair
  before adjustment, its human score being 1 minus its AI score.
\<close>

theorem sensitivity_adjuster_cases:
  "apply_sensitivity s (p, 1 - p) = (spec_adjust s p, 1 - spec_adjust s p)
   \<and> spec_adjust 0.75 p = p \<and> spec_adjust 0.85 p = p
   \<and> (\<exists>q r. score_pair U t = Some (q, 1 - q) \<and> analyze_text U t s = Some r
          \<and> ai_score r = spec_adjust s q \<and> human_score r = 1 - ai_score r)"
proof -
  obtain af as hf hs where
    sp: "score_pair U t = Some (ai_base as / (ai_base as + human_base hs),
                            1 - ai_base as / (ai_base as + human_base hs))"
    and at: "\<forall>s. analyze_text U t s =
           Some \<lparr>ai_score = fst (adjusted s (ai_base as / (ai_base as + human_base hs))),
                 human_score = snd (adjusted s (ai_base as / (ai_base as + human_base hs))),
                 ai_features = af, human_features = hf\<rparr>"
    using pipeline [of U t] by blast
  have "\<exists>q r. score_pair U t = Some (q, 1 - q) \<and> analyze_text U t s = Some r
          \<and> ai_score r = spec_adjust s q \<and> human_score r = 1 - ai_score r"
    using sp at unfolding adjusted_def apply_sensitivity_spec by simp
  moreover have "spec_adjust 0.75 p = p" "spec_adjust 0.85 p = p"
    by (simp_all add: spec_adjust_def)
  ultimately show ?thesis
    using apply_sensitivity_spec by blast
qed

theorem sensitivity_adjuster_cases_witness:
  "apply_sensitivity 0.75 (0.4, 1 - 0.4) = (0.4, 0.6)
   \<and> apply_sensitivity 0.85 (0.4, 1 - 0.4) = (0.4, 0.6)
   \<and> apply_sensitivity 0.6 (0.4, 1 - 0.4) = (0.34, 0.66)
   \<and> apply_sensitivity 0.9 (0.4, 1 - 0.4) = (0.46, 0.54)
   \<and> apply_sensitivity 0.9 (0.9, 1 - 0.9) = (0.99, 0.01)"
  using sensitivity_adjuster_cases [of "0.75" "0.4" ascii_db "[]"]
    sensitivity_adjuster_cases [of "0.85" "0.4" ascii_db "[]"]
    sensitivity_adjuster_cases [of "0.6" "0.4" ascii_db "[]"]
    sensitivity_adjuster_cases [of "0.9" "0.4" ascii_db "[]"]
    sensitivity_adjuster_cases [of "0.9" "0.9" ascii_db "[]"]
  by (simp add: spec_adjust_def)

subsection \<open>C4\<close>

text \<open>
  C4.  For every text, the AI probability returned at sensitivity 0.6 is at most the one
  returned at 0.8, which is at most the one returned at 0.9.
\<close>

theorem sensitivity_monotone:
  "\<exists>r6 r8 r9. analyze_text U t 0.6 = Some r6 \<and> analyze_text U t 0.8 = Some r8
     \<and> analyze_text U t 0.9 = Some r9
     \<and> ai_score r6 \<le> ai_score r8 \<and> ai_score r8 \<le> ai_score r9"
proof -
  obtain af as hf hs where
    b: "0.15 \<le> ai_base as" "ai_base as \<le> 0.95" "0.1 \<le> human_base hs" "human_base hs \<le> 0.95"
    and at: "\<forall>s. analyze_text U t s =
           Some \<lparr>ai_score = fst (adjusted s (ai_base as / (ai_base as + human_base hs))),
                 human_score = snd (adjusted s (ai_base as / (ai_base as + human_base hs))),
                 ai_features = af, human_features = hf\<rparr>"
    using pipeline [of U t] by blast
  define p where "p = ai_base as / (ai_base as + human_base hs)"
  have p0: "0 \<le> p" and p1: "p \<le> 0.95 / 1.05"
    unfolding p_def using ratio_bounds [OF b] by blast+
  note m = adjust_bounds(3,4) [OF p0 p1]
  have at': "analyze_text U t s =
           Some \<lparr>ai_score = spec_adjust s p, human_score = 1 - spec_adjust s p,
                 ai_features = af, human_features = hf\<rparr>" for s
    using at unfolding p_def adjusted_def apply_sensitivity_spec by simp
  show ?thesis
    unfolding at' using m by simp
qed

theorem sensitivity_monotone_witness:
  "map_option ai_score (analyze_text ascii_db sample_text 0.6) = Some (459 / 740)
   \<and> map_option ai_score (analyze_text ascii_db sample_text 0.8) = Some (27 / 37)
   \<and> map_option ai_score (analyze_text ascii_db sample_text 0.9) = Some (621 / 740)
   \<and> (\<exists>r6 r8 r9. analyze_text ascii_db sample_text 0.6 = Some r6
         \<and> analyze_text ascii_db sample_text 0.8 = Some r8
         \<and> analyze_text ascii_db sample_text 0.9 = Some r9
         \<and> ai_score r6 \<le> ai_score r8 \<and> ai_score r8 \<le> ai_score r9)"
proof -
  have v: "map_option ai_score (analyze_text ascii_db sample_text 0.6) = Some (459 / 740)"
    "map_option ai_score (analyze_text ascii_db sample_text 0.8) = Some (27 / 37)"
    "map_option ai_score (analyze_text ascii_db sample_text 0.9) = Some (621 / 740)"
    unfolding sample_analysis by (simp_all add: spec_adjust_def)
  show ?thesis
    using sensitivity_monotone [of ascii_db sample_text] v by blast
qed

subsection \<open>C5\<close>

text \<open>
  C5, as stated, fails: the formal-language extractor does not count occurrences.  A text
  holding the vocabulary term "however" three times, and no other term, scores 1/3, not
  1.0.
\<close>

theorem formal_language_repeated_term_counterexample:
  "count_sub (lower ascii_db (str_of ''however however however'')) (str_of ''however'') = 3
   \<and> detect_formal_language ascii_db (str_of ''however however however'') = Some (1 / 3)
   \<and> detect_formal_language ascii_db (str_of ''however however however'') \<noteq> Some 1.0"
  unfolding detect_formal_language_eq lower_however count_however count_sub_however
  by simp

text \<open>
  C5, amended.  For every text, the count is the number of distinct vocabulary terms that
  occur at least once in the lower-cased text (a term counts once, however often it
  occurs), so it is at most 14; the score is \<open>min(1.0, count / 3)\<close>; and the score is
  1.0 exactly when at least three different terms occur.
\<close>

theorem formal_language_counts_distinct_terms:
  "detect_formal_language U t
     = Some (min 1.0 (real (card {w \<in> set formal_words. contains (lower U t) w}) / 3))
   \<and> card {w \<in> set formal_words. contains (lower U t) w} \<le> 14
   \<and> (detect_formal_language U t = Some 1.0
        \<longleftrightarrow> 3 \<le> card {w \<in> set formal_words. contains (lower U t) w})"
proof -
  define n where "n = card {w \<in> set formal_words. contains (lower U t) w}"
  have c: "count_if (contains (lower U t)) formal_words = int n"
    unfolding n_def using formal_words_distinct by (rule count_if_card)
  have eq: "detect_formal_language U t = Some (min 1.0 (real n / 3))"
    unfolding detect_formal_language_eq c by simp
  have "int n \<le> int (length formal_words)"
    unfolding c [symmetric] by (rule count_if_le_length)
  then have le: "n \<le> 14" by (simp add: formal_words_def)
  have "(min 1.0 (real n / 3) = 1.0) \<longleftrightarrow> 3 \<le> n"
    by (auto simp: min_def)
  then show ?thesis
    unfolding n_def [symmetric] eq using le by simp
qed

theorem formal_language_counts_distinct_terms_witness:
  "detect_formal_language ascii_db (str_of ''however however however'') = Some (1 / 3)
   \<and> card {w \<in> set formal_words. contains (str_of ''however however however'') w} = 1"
proof -
  have "int (card {w \<in> set formal_words. contains (str_of ''however however however'') w}) = 1"
    using count_if_card [OF formal_words_distinct, of "contains (str_of ''however however however'')"]
      count_however by simp
  then have c: "card {w \<in> set formal_words. contains (str_of ''however however however'') w} = 1"
    by simp
  show ?thesis
    using formal_language_counts_distinct_terms [of ascii_db "str_of ''however however however''"]
    unfolding lower_however c by simp
qed

subsection \<open>C6\<close>

text \<open>
  C6.  For every text whose lower-cased whitespace split (the list \<open>words\<close> of line 11)
  is three identical tokens, exactly one window is formed, its count is 1, and the
  repeated-phrase count is 0.  With the ASCII case tables the same holds for every text
  whose own whitespace split is three identical tokens.
\<close>

theorem three_identical_tokens:
  "(split (lower U t) = [w, w, w] \<longrightarrow>
       phrase_counts (split (lower U t)) = [(w @ str_of '' '' @ w @ str_of '' '' @ w, 1)]
       \<and> count_repeated_phrases U t = 0)
   \<and> (split t = [v, v, v] \<longrightarrow>
       phrase_counts (split (lower ascii_db t))
         = [(ascii_lower v @ str_of '' '' @ ascii_lower v @ str_of '' '' @ ascii_lower v, 1)]
       \<and> count_repeated_phrases ascii_db t = 0)"
proof -
  have pc: "phrase_counts [x, x, x] = [(x @ str_of '' '' @ x @ str_of '' '' @ x, 1)]" for x
    unfolding phrase_counts_def by (simp add: Let_def dict_get_def)
  have gen: "split (lower V t) = [x, x, x] \<Longrightarrow>
       phrase_counts (split (lower V t)) = [(x @ str_of '' '' @ x @ str_of '' '' @ x, 1)]
       \<and> count_repeated_phrases V t = 0" for V x
    unfolding count_repeated_phrases_def Let_def
    by (simp add: pc count_if_def)
  have "split t = [v, v, v] \<Longrightarrow>
          split (lower ascii_db t) = [ascii_lower v, ascii_lower v, ascii_lower v]"
    by (simp add: split_ascii_lower)
  then show ?thesis
    using gen [of U w] gen [of ascii_db "ascii_lower v"] by blast
qed

theorem three_identical_tokens_witness:
  "split (lower ascii_db (str_of ''Ab ab AB'')) = [str_of ''ab'', str_of ''ab'', str_of ''ab'']
   \<and> phrase_counts (split (lower ascii_db (str_of ''Ab ab AB''))) = [(str_of ''ab ab ab'', 1)]
   \<and> count_repeated_phrases ascii_db (str_of ''Ab ab AB'') = 0
   \<and> split (str_of ''Hey Hey Hey'') = [str_of ''Hey'', str_of ''Hey'', str_of ''Hey'']
   \<and> phrase_counts (split (lower ascii_db (str_of ''Hey Hey Hey''))) = [(str_of ''hey hey hey'', 1)]
   \<and> count_repeated_phrases ascii_db (str_of ''Hey Hey Hey'') = 0"
  using three_identical_tokens [of ascii_db "str_of ''Ab ab AB''" "str_of ''ab''" "str_of ''Hey''"]
    three_identical_tokens [of ascii_db "str_of ''Hey Hey Hey''" "[]" "str_of ''Hey''"]
    split_ab split_hey
  by (simp add: lower_hey) (simp add: str_of_def)

subsection \<open>C7\<close>

text \<open>
  C7.  For every text, the formal-language score lies in \<open>[0, 1]\<close>, the repeated-phrase
  count is a non-negative integer, the grammar-perfection score lies in \<open>[0, 1]\<close> and the
  structural-regularity score lies in \<open>[0, 1]\<close>.
\<close>

theorem extractor_bounds:
  "(\<exists>f. detect_formal_language U t = Some f \<and> 0 \<le> f \<and> f \<le> 1)
   \<and> 0 \<le> count_repeated_phrases U t
   \<and> (\<exists>g. check_grammar_perfection U t = Some g \<and> 0 \<le> g \<and> g \<le> 1)
   \<and> (\<exists>v. analyze_structure t = Some v \<and> 0 \<le> v \<and> v \<le> 1)"
proof -
  have f0: "0 \<le> min 1 (real_of_int (count_if (contains (lower U t)) formal_words) / 3)"
    using count_if_nonneg [of "contains (lower U t)" formal_words] by simp
  have f1: "min 1 (real_of_int (count_if (contains (lower U t)) formal_words) / 3) \<le> 1"
    by simp
  have r: "0 \<le> count_repeated_phrases U t"
    unfolding count_repeated_phrases_def Let_def by (simp add: count_if_nonneg)
  have "0 \<le> real_of_int (grammar_errors U t) / max 1 (real (length (split t)) / 10)"
    using grammar_errors_nonneg [of U t] by (intro divide_nonneg_nonneg) simp_all
  then have g1: "max 0 (1 - real_of_int (grammar_errors U t) / max 1 (real (length (split t)) / 10)) \<le> 1"
    by simp
  have g0: "0 \<le> max 0 (1 - real_of_int (grammar_errors U t) / max 1 (real (length (split t)) / 10))"
    by simp
  show ?thesis
    using detect_formal_language_eq f0 f1 r check_grammar_perfection_eq g0 g1
      analyze_structure_bounded by blast
qed

theorem extractor_bounds_witness:
  "detect_formal_language ascii_db sample_text = Some (1 / 3)
   \<and> count_repeated_phrases ascii_db sample_text = 0
   \<and> check_grammar_perfection ascii_db sample_text = Some 1
   \<and> analyze_structure sample_text = Some 0
   \<and> (\<exists>f. detect_formal_language ascii_db sample_text = Some f \<and> 0 \<le> f \<and> f \<le> 1)
   \<and> 0 \<le> count_repeated_phrases ascii_db sample_text
   \<and> (\<exists>g. check_grammar_perfection ascii_db sample_text = Some g \<and> 0 \<le> g \<and> g \<le> 1)
   \<and> (\<exists>v. analyze_structure sample_text = Some v \<and> 0 \<le> v \<and> v \<le> 1)"
  using extractor_bounds [of ascii_db sample_text]
    sample_formal sample_repeated sample_grammar sample_structure
  by blast

subsection \<open>C9\<close>

text \<open>
  C9, as stated, fails in what it says of the degenerate values: on the empty text, and
  on the one-token text "Hi", the grammar-perfection score is 1.0, neither zero nor
  neutral.  It exceeds the 0.8 threshold, so the empty text has the grammar flag set, the
  contribution 0.12 appended, and the pair (27/37, 10/37).
\<close>

theorem degenerate_not_neutral_counterexample:
  "check_grammar_perfection ascii_db [] = Some 1
   \<and> check_grammar_perfection ascii_db [] \<noteq> Some 0
   \<and> ai_features_scores ascii_db [] = Some (zip ai_feature_names [False, False, True, False, False], [0.12])
   \<and> score_pair ascii_db [] = Some (27 / 37, 10 / 37)
   \<and> length (split (lower ascii_db (str_of ''Hi''))) < 3
   \<and> check_grammar_perfection ascii_db (str_of ''Hi'') = Some 1"
  using empty_values(3) [OF ascii_lower_empty] empty_ai [OF ascii_lower_empty]
    empty_pair [OF ascii_lower_empty] grammar_hi
  by (simp add: split_hi)

text \<open>
  C9, amended.  For every text, no extractor raises: each extractor that divides or indexes
  returns a value (the three others, \<open>count_repeated_phrases\<close>, \<open>check_formulaic_patterns\<close>
  and \<open>count_contractions\<close>, contain no operation that can raise).  No divisor is zero:
  the grammar-perfection score and the four ratios divide by \<open>max(1, tokens / 10)\<close> or
  \<open>max(1, tokens / 5)\<close>, the formal-language score by the constant 3, and the
  structural-regularity score by \<open>mean + 1\<close>, which is at least 1, and then by 3.  The
  repeated-phrase count is 0 for fewer than 3 tokens and the structural-regularity score is
  0 for fewer than 2 sentences.  On the empty text every extractor returns 0 or False,
  except the grammar-perfection score, which is 1 and sets its flag.
\<close>

theorem extractors_total:
  "detect_formal_language U t = Some (min 1 (real_of_int (count_if (contains (lower U t)) formal_words) / 3))
   \<and> check_grammar_perfection U t = Some (max 0 (1 - real_of_int (grammar_errors U t) / max 1 (tokens t / 10)))
   \<and> (\<exists>v. analyze_structure t = Some v)
   \<and> (length (sentences_of t) < 2 \<longrightarrow> analyze_structure t = Some 0)
   \<and> (2 \<le> length (sentences_of t) \<longrightarrow>
        analyze_structure t
          = Some (1 - min 1 (variance_of (sentence_lengths t) / (mean_of (sentence_lengths t) + 1) / 3))
        \<and> 1 \<le> mean_of (sentence_lengths t) + 1)
   \<and> detect_natural_errors U t = Some (real_of_int (fold (\<lambda>word errors. errors + count_sub (lower U t) word) double_words 0) / max 1 (tokens t / 10))
   \<and> detect_emotional_language U t = Some (real_of_int (count_if (contains (lower U t)) emotional) / max 1 (tokens t / 5))
   \<and> detect_casual_language U t = Some (real_of_int (count_if (contains (lower U t)) casual) / max 1 (tokens t / 5))
   \<and> detect_personal_opinions U t = Some (real_of_int (count_if (contains (lower U t)) opinions) / max 1 (tokens t / 5))
   \<and> (length (split (lower U t)) < 3 \<longrightarrow> count_repeated_phrases U t = 0)
   \<and> (lower U [] = [] \<longrightarrow>
        count_repeated_phrases U [] = 0 \<and> detect_formal_language U [] = Some 0
        \<and> check_grammar_perfection U [] = Some 1 \<and> \<not> check_formulaic_patterns U []
        \<and> analyze_structure [] = Some 0 \<and> count_contractions U [] = 0
        \<and> detect_natural_errors U [] = Some 0 \<and> detect_emotional_language U [] = Some 0
        \<and> detect_casual_language U [] = Some 0 \<and> detect_personal_opinions U [] = Some 0
        \<and> ai_features_scores U [] = Some (zip ai_feature_names [False, False, True, False, False], [0.12]))"
proof -
  have short: "length (split (lower U t)) < 3 \<longrightarrow> count_repeated_phrases U t = 0"
    unfolding count_repeated_phrases_def Let_def by simp
  have s: "\<exists>v. analyze_structure t = Some v"
    using analyze_structure_bounded by blast
  have g: "check_grammar_perfection U t
             = Some (max 0 (1 - real_of_int (grammar_errors U t) / max 1 (tokens t / 10)))"
    unfolding tokens_def by (rule check_grammar_perfection_eq)
  have struct_short: "length (sentences_of t) < 2 \<longrightarrow> analyze_structure t = Some 0"
    using analyze_structure_short by blast
  have struct_long: "2 \<le> length (sentences_of t) \<longrightarrow>
        analyze_structure t
          = Some (1 - min 1 (variance_of (sentence_lengths t) / (mean_of (sentence_lengths t) + 1) / 3))
        \<and> 1 \<le> mean_of (sentence_lengths t) + 1"
    using analyze_structure_long [of t] by blast
  have empty: "lower U [] = [] \<longrightarrow>
        count_repeated_phrases U [] = 0 \<and> detect_formal_language U [] = Some 0
        \<and> check_grammar_perfection U [] = Some 1 \<and> \<not> check_formulaic_patterns U []
        \<and> analyze_structure [] = Some 0 \<and> count_contractions U [] = 0
        \<and> detect_natural_errors U [] = Some 0 \<and> detect_emotional_language U [] = Some 0
        \<and> detect_casual_language U [] = Some 0 \<and> detect_personal_opinions U [] = Some 0
        \<and> ai_features_scores U [] = Some (zip ai_feature_names [False, False, True, False, False], [0.12])"
    using empty_values [of U] empty_ai [of U] by blast
  show ?thesis
    using detect_formal_language_eq [of U t] g s
      detect_natural_errors_eq [of U t] detect_emotional_language_eq [of U t]
      detect_casual_language_eq [of U t] detect_personal_opinions_eq [of U t]
      short struct_short struct_long empty
    by blast
qed

theorem extractors_total_witness:
  "length (split (lower ascii_db [])) < 3 \<and> length (sentences_of []) < 2 \<and> lower ascii_db [] = []
   \<and> 2 \<le> length (sentences_of two_sentences)
   \<and> count_repeated_phrases ascii_db [] = 0 \<and> analyze_structure [] = Some 0
   \<and> analyze_structure two_sentences = Some (8 / 9)
   \<and> detect_formal_language ascii_db [] = Some 0 \<and> check_grammar_perfection ascii_db [] = Some 1
   \<and> detect_natural_errors ascii_db [] = Some 0 \<and> detect_emotional_language ascii_db [] = Some 0
   \<and> detect_casual_language ascii_db [] = Some 0 \<and> detect_personal_opinions ascii_db [] = Some 0"
proof -
  have a: "length (split (lower ascii_db [])) < 3"
    unfolding ascii_lower_empty by (simp add: split_def)
  have b: "length (sentences_of []) < 2"
    by (simp add: sentences_of_def strip_def)
  have c: "2 \<le> length (sentences_of two_sentences)"
    unfolding two_sentences_of by simp
  have "analyze_structure two_sentences
          = Some (1 - min 1 (variance_of (sentence_lengths two_sentences)
                              / (mean_of (sentence_lengths two_sentences) + 1) / 3))"
    using extractors_total [of ascii_db two_sentences] c by blast
  then have d: "analyze_structure two_sentences = Some (8 / 9)"
    unfolding two_sentences_lengths by (simp add: mean_of_def variance_of_def)
  show ?thesis
    using extractors_total [of ascii_db "[]"] ascii_lower_empty a b c d by blast
qed

subsection \<open>C10\<close>

text \<open>
  C10.  For every text, the AI base is at least 0.15 and the human base at least 0.10, so
  their total is at least 0.25 and positive, and the AI probability before the sensitivity
  step is AI base / total: the 0.5 fallback is never taken.
\<close>

theorem zero_total_unreachable:
  "\<exists>af as hf hs.
     ai_features_scores U t = Some (af, as) \<and> human_features_scores U t = Some (hf, hs)
     \<and> 0.15 \<le> ai_base as \<and> 0.10 \<le> human_base hs \<and> 0.25 \<le> ai_base as + human_base hs
     \<and> 0 < ai_base as + human_base hs
     \<and> score_pair U t = Some (ai_base as / (ai_base as + human_base hs),
                              1 - ai_base as / (ai_base as + human_base hs))"
proof -
  obtain af as hf hs where
    a: "ai_features_scores U t = Some (af, as)" and h: "human_features_scores U t = Some (hf, hs)"
    and b: "0.15 \<le> ai_base as" "0.1 \<le> human_base hs"
    and sp: "score_pair U t = Some (ai_base as / (ai_base as + human_base hs),
                            1 - ai_base as / (ai_base as + human_base hs))"
    using pipeline [of U t] by blast
  have "0.25 \<le> ai_base as + human_base hs" "0 < ai_base as + human_base hs"
    using b by simp_all
  then show ?thesis
    using a h b sp by auto
qed

theorem zero_total_unreachable_witness:
  "ai_features_scores ascii_db sample_text = Some (zip ai_feature_names [False, False, True, False, False], [0.12])
   \<and> human_features_scores ascii_db sample_text = Some (zip human_feature_names [False, False, False, False, False], [])
   \<and> ai_base [0.12] + human_base [] = 0.37
   \<and> score_pair ascii_db sample_text = Some (ai_base [0.12] / (ai_base [0.12] + human_base []),
         1 - ai_base [0.12] / (ai_base [0.12] + human_base []))"
proof -
  obtain af as hf hs where
    a: "ai_features_scores ascii_db sample_text = Some (af, as)"
    and h: "human_features_scores ascii_db sample_text = Some (hf, hs)"
    and sp: "score_pair ascii_db sample_text = Some (ai_base as / (ai_base as + human_base hs),
                              1 - ai_base as / (ai_base as + human_base hs))"
    using zero_total_unreachable [of ascii_db sample_text] by blast
  have as: "as = [0.12]" using a unfolding sample_ai by simp
  have hs: "hs = []" using h unfolding sample_human by simp
  have t: "ai_base [0.12] + human_base [] = 0.37"
    by (simp add: ai_base_def human_base_def)
  show ?thesis
    using sample_ai sample_human t sp unfolding as hs by blast
qed

end
